theory Spec2Isabelle
  imports Main "HOL-Library.AList"
begin

section \<open>Values shared by the whole adapter\<close>

text \<open>
  Go strings and byte slices are byte sequences: both are modelled as \<open>string\<close>
  (a list of 8-bit characters). Engine objects (peer connections, data channels) and Go
  channels are referred to by handles.
\<close>

type_synonym bytes = string
type_synonym handle = nat

text \<open>
  Error values. The two configuration errors are the package variables of the source;
  \<open>EOF\<close> is \<open>io.EOF\<close>; \<open>LibErr\<close> stands for any error value returned by a library call.
\<close>

datatype error =
    ErrInvalidTURNServerAddr
  | ErrMissingTURNCredentials
  | EOF
  | LibErr string

text \<open>
  How a call can fail to return normally: it returns an error value, or it panics,
  either with an error value (\<open>panic(err)\<close>) or with a run-time error of Go itself.
\<close>

datatype failure =
    Returned error
  | PanicErr error
  | IndexOutOfRange nat nat
  | CloseOfClosedChannel
  | SendOnClosedChannel
  | NilDereference

section \<open>Library functions of package strings\<close>

text \<open>
  \<open>strings.Split(s, sep)\<close> for a separator of one byte: the substrings between the
  separators, one more than there are separators.
\<close>

fun Split :: "string \<Rightarrow> char \<Rightarrow> string list" where
  "Split [] sep = [[]]"
| "Split (c # cs) sep =
     (if c = sep then [] # Split cs sep
      else (case Split cs sep of
              [] \<Rightarrow> [[c]]
            | p # ps \<Rightarrow> (c # p) # ps))"

text \<open>\<open>strings.Contains(s, substr)\<close>.\<close>

fun Contains :: "string \<Rightarrow> string \<Rightarrow> bool" where
  "Contains [] substr = (substr = [])"
| "Contains (c # cs) substr =
     (take (length substr) (c # cs) = substr \<or> Contains cs substr)"

text \<open>
  \<open>strings.TrimSpace(s)\<close> removes leading and trailing white space as Unicode defines
  it. The white-space code points are listed here by their UTF-8 encodings: U+0009 to
  U+000D, U+0020, U+0085, U+00A0, U+1680, U+2000 to U+200A, U+2028, U+2029, U+202F,
  U+205F and U+3000.
\<close>

definition space_runes :: "string list" where
  "space_runes =
     [[CHR 0x09], [CHR 0x0A], [CHR 0x0B], [CHR 0x0C], [CHR 0x0D], [CHR 0x20],
      [CHR 0xC2, CHR 0x85], [CHR 0xC2, CHR 0xA0],
      [CHR 0xE1, CHR 0x9A, CHR 0x80],
      [CHR 0xE2, CHR 0x80, CHR 0x80], [CHR 0xE2, CHR 0x80, CHR 0x81],
      [CHR 0xE2, CHR 0x80, CHR 0x82], [CHR 0xE2, CHR 0x80, CHR 0x83],
      [CHR 0xE2, CHR 0x80, CHR 0x84], [CHR 0xE2, CHR 0x80, CHR 0x85],
      [CHR 0xE2, CHR 0x80, CHR 0x86], [CHR 0xE2, CHR 0x80, CHR 0x87],
      [CHR 0xE2, CHR 0x80, CHR 0x88], [CHR 0xE2, CHR 0x80, CHR 0x89],
      [CHR 0xE2, CHR 0x80, CHR 0x8A],
      [CHR 0xE2, CHR 0x80, CHR 0xA8], [CHR 0xE2, CHR 0x80, CHR 0xA9],
      [CHR 0xE2, CHR 0x80, CHR 0xAF], [CHR 0xE2, CHR 0x81, CHR 0x9F],
      [CHR 0xE3, CHR 0x80, CHR 0x80]]"

text \<open>One white-space rune removed from the front, if the string starts with one.\<close>

definition strip_rune :: "string list \<Rightarrow> string \<Rightarrow> string option" where
  "strip_rune encs s =
     (case filter (\<lambda>e. take (length e) s = e) encs of
        [] \<Rightarrow> None
      | e # _ \<Rightarrow> Some (drop (length e) s))"

text \<open>The trimming loop; every round removes at least one byte, so \<open>length s\<close> rounds are enough.\<close>

fun trim_front :: "nat \<Rightarrow> string list \<Rightarrow> string \<Rightarrow> string" where
  "trim_front 0 encs s = s"
| "trim_front (Suc n) encs s =
     (case strip_rune encs s of
        None \<Rightarrow> s
      | Some t \<Rightarrow> trim_front n encs t)"

definition TrimSpace :: "string \<Rightarrow> string" where
  "TrimSpace s =
     (let t = trim_front (length s) space_runes s
      in rev (trim_front (length t) (map rev space_runes) (rev t)))"

section \<open>ICE server parsing in Open\<close>

datatype ICECredentialType = ICECredentialTypePassword | ICECredentialTypeOauth

text \<open>
  \<open>webrtc.ICEServer\<close>. A field the source does not set has Go's zero value: the empty
  string, no credential, and \<open>ICECredentialTypePassword\<close> (the first constant of its type).
\<close>

record ICEServer =
  URLs :: "string list"
  Username :: string
  Credential :: "string option"
  CredentialType :: ICECredentialType

text \<open>Indexing a slice: Go panics when the index is out of range.\<close>

definition index :: "'a list \<Rightarrow> nat \<Rightarrow> failure + 'a" where
  "index xs i = (if i < length xs then Inr (xs ! i) else Inl (IndexOutOfRange i (length xs)))"

text \<open>
  The body of the loop over \<open>a.ice\<close> (lines 110 to 138) for one entry: \<open>None\<close> is
  \<open>continue\<close>, \<open>Some s\<close> is the server appended to \<open>iceServers\<close>. The second length check
  tests \<open>addrParts\<close>, as the source does.
\<close>

definition parse_ice_entry :: "string \<Rightarrow> failure + ICEServer option" where
  "parse_ice_entry ice =
     (if TrimSpace ice = [] then Inr None
      else if Contains ice ''stun:'' then
        Inr (Some \<lparr>URLs = [ice], Username = [], Credential = None,
                   CredentialType = ICECredentialTypePassword\<rparr>)
      else
        (let addrParts = Split ice CHR ''@'' in
         if length addrParts < 2 then Inl (Returned ErrInvalidTURNServerAddr)
         else
           (let authParts = Split (addrParts ! 0) CHR '':'' in
            if length addrParts < 2 then Inl (Returned ErrMissingTURNCredentials)
            else
              (case index addrParts 1 of
                 Inl f \<Rightarrow> Inl f
               | Inr url \<Rightarrow>
                   (case index authParts 0 of
                      Inl f \<Rightarrow> Inl f
                    | Inr user \<Rightarrow>
                        (case index authParts 1 of
                           Inl f \<Rightarrow> Inl f
                         | Inr cred \<Rightarrow>
                             Inr (Some \<lparr>URLs = [url], Username = user, Credential = Some cred,
                                        CredentialType = ICECredentialTypePassword\<rparr>)))))))"

text \<open>The loop itself: the first failure ends \<open>Open\<close>.\<close>

fun parse_ice :: "string list \<Rightarrow> ICEServer list \<Rightarrow> failure + ICEServer list" where
  "parse_ice [] iceServers = Inr iceServers"
| "parse_ice (ice # rest) iceServers =
     (case parse_ice_entry ice of
        Inl f \<Rightarrow> Inl f
      | Inr None \<Rightarrow> parse_ice rest iceServers
      | Inr (Some s) \<Rightarrow> parse_ice rest (iceServers @ [s]))"

section \<open>NewAdapter\<close>

text \<open>\<open>time.Duration\<close> counts nanoseconds.\<close>

definition Second :: int where
  "Second = 1000000000"

record AdapterConfig =
  Timeout :: int
  Verbose :: bool
  ID :: string
  PrimaryChannelID :: string

text \<open>
  The configuration the adapter keeps (lines 71 to 82): the argument is a pointer, and
  \<open>None\<close> is \<open>nil\<close>. The adapter keeps the pointer it was given; a host that
  writes to the struct later is outside of this development.
\<close>

definition NewAdapter_config :: "AdapterConfig option \<Rightarrow> AdapterConfig" where
  "NewAdapter_config config =
     (let c = (case config of
                 None \<Rightarrow> \<lparr>Timeout = Second * 10, Verbose = False, ID = [], PrimaryChannelID = []\<rparr>
               | Some c \<Rightarrow> c)
      in if TrimSpace (PrimaryChannelID c) = [] then c\<lparr>PrimaryChannelID := ''primary''\<rparr> else c)"

section \<open>The byte stream over a data channel\<close>

record message =
  data :: bytes
  err :: "error option"

text \<open>
  \<open>dataChannelReadWriteCloser\<close>. The channel \<open>msgs\<close> is unbuffered: \<open>msgs\<close> here holds
  the messages of the callbacks that are blocked sending on it, oldest first.
\<close>

record dataChannelReadWriteCloser =
  dc :: handle
  msgs :: "message list"

definition newDataChannelReadWriteCloser :: "handle \<Rightarrow> dataChannelReadWriteCloser" where
  "newDataChannelReadWriteCloser h = \<lparr>dc = h, msgs = []\<rparr>"

text \<open>The two callbacks installed by \<open>newDataChannelReadWriteCloser\<close>.\<close>

definition OnMessage :: "dataChannelReadWriteCloser \<Rightarrow> bytes \<Rightarrow> dataChannelReadWriteCloser" where
  "OnMessage d payload = d\<lparr>msgs := msgs d @ [\<lparr>data = payload, err = None\<rparr>]\<rparr>"

definition OnClose :: "dataChannelReadWriteCloser \<Rightarrow> dataChannelReadWriteCloser" where
  "OnClose d = d\<lparr>msgs := msgs d @ [\<lparr>data = [], err = Some EOF\<rparr>]\<rparr>"

text \<open>Go's \<open>copy(dst, src)\<close>: the number of bytes copied and the destination afterwards.\<close>

definition copy :: "bytes \<Rightarrow> bytes \<Rightarrow> int \<times> bytes" where
  "copy dst src =
     (let n = min (length dst) (length src)
      in (int n, take n src @ drop n dst))"

text \<open>
  \<open>Read\<close>: \<open>None\<close> while no message is offered on \<open>msgs\<close> (the receive blocks);
  otherwise the count, the error, the buffer afterwards and the adapter afterwards.
\<close>

definition Read ::
  "dataChannelReadWriteCloser \<Rightarrow> bytes \<Rightarrow>
     (int \<times> error option \<times> bytes \<times> dataChannelReadWriteCloser) option" where
  "Read d p =
     (case msgs d of
        [] \<Rightarrow> None
      | msg # rest \<Rightarrow>
          (case err msg of
             Some e \<Rightarrow> Some (- 1, Some e, p, d\<lparr>msgs := rest\<rparr>)
           | None \<Rightarrow>
               (let (n, p') = copy p (data msg)
                in Some (n, None, p', d\<lparr>msgs := rest\<rparr>))))"

text \<open>
  \<open>Write\<close>: \<open>send\<close> is the result of \<open>d.dc.Send(p)\<close>, which belongs to the engine.
\<close>

definition Write :: "error option \<Rightarrow> bytes \<Rightarrow> int \<times> error option" where
  "Write send p =
     (case send of
        Some e \<Rightarrow> (- 1, Some e)
      | None \<Rightarrow> (int (length p), None))"

section \<open>The adapter, the engine and the signaling socket as one state\<close>

text \<open>
  \<open>peer\<close> is the source's struct of that name: the registry entry of one remote peer.
  The \<open>channels\<close> map is an association list; Go leaves the order of iteration over a
  map open, and here it is the order of the list.
\<close>

record peer =
  conn :: handle
  candidates :: handle
  channels :: "(string \<times> handle) list"
  iid :: string

text \<open>\<open>Peer\<close> is what \<open>Accept\<close> hands to the host.\<close>

record Peer =
  PeerID :: string
  ChannelID :: string
  Conn :: dataChannelReadWriteCloser

text \<open>
  A payload either is the JSON of a session description (named by the connection that
  made it) or is other bytes, which \<open>json.Unmarshal\<close> into a session description rejects.
\<close>

datatype payload = SDP handle | Raw bytes

datatype envelope =
    Introduction string
  | Offer string string payload
  | Answer string string payload
  | Candidate string string payload

text \<open>
  What arrives on \<open>inputs\<close>: a frame that decrypts and parses to an envelope, or one
  that fails to decrypt, fails to parse or has an unknown type (all three are skipped).
\<close>

datatype input = Envelope envelope | Skipped

text \<open>
  The calls into libraries that can return an error. Which of them do is not decided by
  the adapter: the state carries \<open>fault\<close>, which gives the error a call on a handle
  returns, if any (the same whenever that call is made on that handle). A call that
  makes an object is asked about under the handle the object will get; the calls on
  the socket under the handle of the socket.
\<close>

datatype call =
    Dial
  | SetReadDeadline
  | NewPeerConnection
  | CreateDataChannel
  | CreateOffer
  | CreateAnswer
  | SetLocalDescription
  | SetRemoteDescription
  | AddICECandidate
  | ConnClose
  | ChannelClose
  | Marshal
  | Encrypt
  | WriteMessage
  | SetWriteDeadline
  | SocketClose

datatype engine_event = RemoteDescriptionSet handle | CandidateAdded handle payload

text \<open>
  The goroutine started by \<open>Open\<close>: not started, between two sessions, inside a
  session, blocked for ever, or returned.
\<close>

datatype status = Unopened | Between | Running | Stuck | Stopped

text \<open>
  The fields of \<open>Adapter\<close> (the flag \<open>done\<close> is \<open>adapter_done\<close>; \<open>cancelled\<close> says that
  \<open>cancel\<close> was called; the channel \<open>lines\<close> is \<open>lines_closed\<close> with the frames of the
  goroutines blocked sending on it; \<open>accepted\<close> is what the host has received from
  \<open>peerChan\<close>), followed by the state of the session and of the libraries:
  \<^item> \<open>session\<close>, \<open>local_id\<close>, \<open>sock\<close>, \<open>ids\<close>, \<open>errs_senders\<close>: the goroutine of \<open>Open\<close>, the
    identity and the socket of its session, the identities published, and the errors
    offered on \<open>errs\<close>;
  \<^item> \<open>closed_conns\<close>, \<open>closed_channels\<close>, \<open>closed_queues\<close>: what was closed;
  \<^item> \<open>queue_senders\<close>: the goroutines blocked sending a candidate on a queue;
    \<open>drainers\<close>: the goroutines ranging over a queue to feed a connection;
  \<^item> \<open>engine_log\<close>: remote descriptions set and candidates added, newest first;
  \<^item> \<open>sent\<close>: the lines encrypted and written to the socket, newest first (\<open>None\<close> is the
    nil line received from the closed channel);
  \<^item> \<open>crashed\<close>: a goroutine that nothing recovers has panicked.
\<close>

record world =
  config :: AdapterConfig
  ice :: "string list"
  adapter_done :: bool
  cancelled :: bool
  lines_closed :: bool
  lines_senders :: "envelope list"
  accepted :: "Peer list"
  peers :: "(string \<times> peer) list"
  peerLock :: bool
  session :: status
  local_id :: string
  sock :: handle
  ids :: "string list"
  errs_senders :: "error list"
  fault :: "call \<Rightarrow> handle \<Rightarrow> error option"
  next_handle :: handle
  closed_conns :: "handle set"
  closed_channels :: "handle set"
  closed_queues :: "handle set"
  queue_senders :: "(handle \<times> payload) list"
  drainers :: "(handle \<times> handle) list"
  engine_log :: "engine_event list"
  sent :: "envelope option list"
  crashed :: bool

definition NewAdapter ::
  "string list \<Rightarrow> AdapterConfig option \<Rightarrow> (call \<Rightarrow> handle \<Rightarrow> error option) \<Rightarrow> world" where
  "NewAdapter ice_arg config_arg flt =
     \<lparr>config = NewAdapter_config config_arg, ice = ice_arg,
      adapter_done = False, cancelled = False,
      lines_closed = False, lines_senders = [], accepted = [], peers = [],
      peerLock = False, session = Unopened, local_id = [], sock = 0, ids = [],
      errs_senders = [], fault = flt, next_handle = 0,
      closed_conns = {}, closed_channels = {}, closed_queues = {},
      queue_senders = [], drainers = [], engine_log = [], sent = [], crashed = False\<rparr>"

text \<open>
  A piece of code run on a state ends normally, panics, or blocks for ever (on the
  registry lock); the state it leaves is kept in all three cases.
\<close>

datatype outcome = Normal world | Panicked failure world | Blocked world

fun world_of :: "outcome \<Rightarrow> world" where
  "world_of (Normal w) = w"
| "world_of (Panicked f w) = w"
| "world_of (Blocked w) = w"

fun and_then :: "outcome \<Rightarrow> (world \<Rightarrow> outcome) \<Rightarrow> outcome" where
  "and_then (Normal w) k = k w"
| "and_then (Panicked f w) k = Panicked f w"
| "and_then (Blocked w) k = Blocked w"

text \<open>\<open>if err := call(...); err != nil { panic(err) }\<close>\<close>

definition attempt :: "call \<Rightarrow> handle \<Rightarrow> world \<Rightarrow> outcome" where
  "attempt c h w =
     (case fault w c h of
        Some e \<Rightarrow> Panicked (PanicErr e) w
      | None \<Rightarrow> Normal w)"

definition lock :: "world \<Rightarrow> outcome" where
  "lock w = (if peerLock w then Blocked w else Normal (w\<lparr>peerLock := True\<rparr>))"

definition unlock :: "world \<Rightarrow> outcome" where
  "unlock w = Normal (w\<lparr>peerLock := False\<rparr>)"

text \<open>\<open>a.peerLock.Lock(); defer a.peerLock.Unlock(); body\<close>: a panic of the body releases the lock.\<close>

definition locked_deferred :: "(world \<Rightarrow> outcome) \<Rightarrow> world \<Rightarrow> outcome" where
  "locked_deferred body w =
     and_then (lock w) (\<lambda>w.
       (case body w of
          Normal w' \<Rightarrow> Normal (w'\<lparr>peerLock := False\<rparr>)
        | Panicked f w' \<Rightarrow> Panicked f (w'\<lparr>peerLock := False\<rparr>)
        | Blocked w' \<Rightarrow> Blocked w'))"

text \<open>
  \<open>go func() { a.lines <- p }()\<close>: the goroutine blocks until the loop receives; on a
  closed channel the send panics, and nothing recovers it.
\<close>

definition post :: "envelope \<Rightarrow> world \<Rightarrow> world" where
  "post p w =
     (if lines_closed w then w\<lparr>crashed := True\<rparr>
      else w\<lparr>lines_senders := lines_senders w @ [p]\<rparr>)"

subsection \<open>Tearing an entry down\<close>

definition channel_Close :: "handle \<Rightarrow> world \<Rightarrow> outcome" where
  "channel_Close h w =
     and_then (attempt ChannelClose h w) (\<lambda>w.
       Normal (w\<lparr>closed_channels := insert h (closed_channels w)\<rparr>))"

definition conn_Close :: "handle \<Rightarrow> world \<Rightarrow> outcome" where
  "conn_Close h w =
     and_then (attempt ConnClose h w) (\<lambda>w.
       Normal (w\<lparr>closed_conns := insert h (closed_conns w)\<rparr>))"

text \<open>
  \<open>close(q)\<close> on a candidate queue: Go panics when the channel is closed already. The
  goroutines blocked sending on it panic and recover (line 730), the goroutines ranging
  over it leave their loop.
\<close>

definition close_queue :: "handle \<Rightarrow> world \<Rightarrow> outcome" where
  "close_queue q w =
     (if q \<in> closed_queues w then Panicked CloseOfClosedChannel w
      else Normal (w\<lparr>closed_queues := insert q (closed_queues w),
                     queue_senders := filter (\<lambda>s. fst s \<noteq> q) (queue_senders w),
                     drainers := filter (\<lambda>d. fst d \<noteq> q) (drainers w)\<rparr>))"

text \<open>\<open>for _, channel := range p.channels { if err := channel.Close(); err != nil { panic(err) } }\<close>\<close>

fun close_channels :: "(string \<times> handle) list \<Rightarrow> world \<Rightarrow> outcome" where
  "close_channels [] w = Normal w"
| "close_channels (ch # rest) w = and_then (channel_Close (snd ch) w) (close_channels rest)"

text \<open>
  The statements the source repeats at lines 186 to 196, 334 to 344 and 483 to 493:
  close every channel, close the connection, close the queue.
\<close>

definition close_peer :: "peer \<Rightarrow> world \<Rightarrow> outcome" where
  "close_peer p w =
     and_then (close_channels (channels p) w) (\<lambda>w.
     and_then (conn_Close (conn p) w) (\<lambda>w.
     close_queue (candidates p) w))"

subsection \<open>Callbacks of the engine\<close>

datatype PeerConnectionState = New | Connecting | Connected | Disconnected | Failed | Closed

text \<open>
  \<open>OnConnectionStateChange\<close> as installed by the introduction handler (lines 307 to
  348); \<open>src\<close> and \<open>i\<close> are the \<open>introduction.From\<close> and the \<open>iid\<close> the closure captured.
\<close>

definition on_state_change_introduction ::
  "string \<Rightarrow> string \<Rightarrow> PeerConnectionState \<Rightarrow> world \<Rightarrow> outcome" where
  "on_state_change_introduction src i pcs w =
     (if pcs = Disconnected then
        locked_deferred (\<lambda>w.
          (case map_of (peers w) src of
             None \<Rightarrow> Normal w
           | Some c \<Rightarrow>
               if iid c \<noteq> i then Normal w
               else
                 and_then (close_peer c w) (\<lambda>w.
                 Normal (w\<lparr>peers := AList.delete src (peers w)\<rparr>)))) w
      else Normal w)"

text \<open>
  \<open>OnConnectionStateChange\<close> as installed by the offer handler (lines 536 to 574): it
  closes the connection twice and does not range over the channels.
\<close>

definition on_state_change_offer ::
  "string \<Rightarrow> string \<Rightarrow> PeerConnectionState \<Rightarrow> world \<Rightarrow> outcome" where
  "on_state_change_offer src i pcs w =
     (if pcs = Disconnected then
        locked_deferred (\<lambda>w.
          (case map_of (peers w) src of
             None \<Rightarrow> Normal w
           | Some c \<Rightarrow>
               if iid c \<noteq> i then Normal w
               else
                 and_then (conn_Close (conn c) w) (\<lambda>w.
                 and_then (conn_Close (conn c) w) (\<lambda>w.
                 and_then (close_queue (candidates c) w) (\<lambda>w.
                 Normal (w\<lparr>peers := AList.delete src (peers w)\<rparr>)))))) w
      else Normal w)"

text \<open>
  \<open>OnICECandidate\<close> (lines 350 to 369 and 576 to 595): \<open>None\<close> is the nil candidate;
  \<open>c\<close> is the connection, \<open>lid\<close> the local identity of the session.
\<close>

definition on_ice_candidate :: "string \<Rightarrow> string \<Rightarrow> handle \<Rightarrow> bytes option \<Rightarrow> world \<Rightarrow> outcome" where
  "on_ice_candidate lid src c i w =
     (case i of
        None \<Rightarrow> Normal w
      | Some cand \<Rightarrow>
          and_then (attempt Marshal c w) (\<lambda>w.
          Normal (post (Candidate lid src (Raw cand)) w)))"

text \<open>
  \<open>dc.OnOpen\<close> (lines 372 to 381, 421 to 430, 598 to 607) for the channel \<open>h\<close> with
  label \<open>label\<close>. The lock is not released by a deferred call here. \<open>a.peers[src]\<close> is a
  nil pointer when there is no entry.
\<close>

definition on_open :: "string \<Rightarrow> string \<Rightarrow> handle \<Rightarrow> world \<Rightarrow> outcome" where
  "on_open src label h w =
     and_then (lock w) (\<lambda>w.
       (case map_of (peers w) src of
          None \<Rightarrow> Panicked NilDereference w
        | Some p \<Rightarrow>
            unlock
              (w\<lparr>peers := AList.update src (p\<lparr>channels := AList.update label h (channels p)\<rparr>) (peers w),
                 accepted := accepted w @
                   [\<lparr>PeerID = src, ChannelID = label, Conn = newDataChannelReadWriteCloser h\<rparr>]\<rparr>)))"

text \<open>\<open>dc.OnClose\<close> (lines 383 to 405, 432 to 454, 609 to 631).\<close>

definition on_close :: "string \<Rightarrow> string \<Rightarrow> world \<Rightarrow> outcome" where
  "on_close src label w =
     locked_deferred (\<lambda>w.
       (case map_of (peers w) src of
          None \<Rightarrow> Panicked NilDereference w
        | Some p \<Rightarrow>
            (case map_of (channels p) label of
               None \<Rightarrow> Normal w
             | Some channel \<Rightarrow>
                 and_then (channel_Close channel w) (\<lambda>w.
                 Normal (w\<lparr>peers :=
                   AList.update src (p\<lparr>channels := AList.delete label (channels p)\<rparr>) (peers w)\<rparr>))))) w"

subsection \<open>The cases of the session loop\<close>

text \<open>
  An introduction (lines 284 to 504). \<open>lid\<close> is the local identity, \<open>new_iid\<close> the value
  of \<open>uuid.NewString()\<close>. The connection, the primary channel and the queue get the next
  three handles. The lock taken at line 475 is released at line 496 only.
\<close>

definition on_introduction :: "string \<Rightarrow> string \<Rightarrow> string \<Rightarrow> world \<Rightarrow> outcome" where
  "on_introduction lid src new_iid w =
     and_then (attempt NewPeerConnection (next_handle w) w) (\<lambda>w.
     (let c = next_handle w; w = w\<lparr>next_handle := Suc c\<rparr> in
      and_then (attempt CreateDataChannel c w) (\<lambda>w.
      (let d = next_handle w; w = w\<lparr>next_handle := Suc d\<rparr>;
           q = next_handle w; w = w\<lparr>next_handle := Suc q\<rparr>;
           pr = \<lparr>conn = c, candidates = q,
                 channels = [(PrimaryChannelID (config w), d)], iid = new_iid\<rparr> in
       and_then (attempt CreateOffer c w) (\<lambda>w.
       and_then (attempt SetLocalDescription c w) (\<lambda>w.
       and_then (attempt Marshal c w) (\<lambda>w.
       and_then (attempt Marshal c w) (\<lambda>w.
       and_then (lock w) (\<lambda>w.
       and_then (case map_of (peers w) src of
                   None \<Rightarrow> Normal w
                 | Some old \<Rightarrow> close_peer old w) (\<lambda>w.
       and_then (unlock (w\<lparr>peers := AList.update src pr (peers w)\<rparr>)) (\<lambda>w.
       Normal (post (Offer lid src (SDP c)) w))))))))))))"

text \<open>
  The second half of the offer case (lines 647 to 693), for the new connection \<open>c\<close>
  whose remote description has been set: the answer is made, the new entry is stored
  at line 669 whatever the registry held for \<open>src\<close>, the goroutine draining the new
  queue is started and the answer is posted.
\<close>

definition answer_offer :: "string \<Rightarrow> string \<Rightarrow> string \<Rightarrow> handle \<Rightarrow> world \<Rightarrow> outcome" where
  "answer_offer lid src new_iid c w =
     and_then (attempt CreateAnswer c w) (\<lambda>w.
     and_then (attempt SetLocalDescription c w) (\<lambda>w.
     and_then (attempt Marshal c w) (\<lambda>w.
     and_then (attempt Marshal c w) (\<lambda>w.
     and_then (lock w) (\<lambda>w.
     (let q = next_handle w; w = w\<lparr>next_handle := Suc q\<rparr> in
      and_then (unlock (w\<lparr>peers :=
          AList.update src \<lparr>conn = c, candidates = q, channels = [], iid = new_iid\<rparr>
            (peers w)\<rparr>)) (\<lambda>w.
      (let w = (if q \<in> closed_queues w then w
                else w\<lparr>drainers := drainers w @ [(q, c)]\<rparr>) in
       Normal (post (Answer lid src (SDP c)) w)))))))))"

text \<open>
  An offer (lines 505 to 646): an offer for somebody else is dropped; a payload that
  is no session description is dropped after the connection was made.
\<close>

definition on_offer ::
  "string \<Rightarrow> string \<Rightarrow> string \<Rightarrow> payload \<Rightarrow> string \<Rightarrow> world \<Rightarrow> outcome" where
  "on_offer lid src rcpt pl new_iid w =
     (if rcpt \<noteq> lid then Normal w
      else
        and_then (attempt NewPeerConnection (next_handle w) w) (\<lambda>w.
        (let c = next_handle w; w = w\<lparr>next_handle := Suc c\<rparr> in
         (case pl of
            Raw b \<Rightarrow> Normal w
          | SDP remote \<Rightarrow>
              and_then (attempt SetRemoteDescription c w) (\<lambda>w.
              answer_offer lid src new_iid c
                (w\<lparr>engine_log := RemoteDescriptionSet c # engine_log w\<rparr>))))))"

text \<open>
  A candidate (lines 694 to 741): the goroutine sending on the queue of the entry
  blocks until a drainer receives; on a closed queue the send panics and is recovered.
\<close>

definition on_candidate :: "string \<Rightarrow> string \<Rightarrow> string \<Rightarrow> payload \<Rightarrow> world \<Rightarrow> outcome" where
  "on_candidate lid src rcpt pl w =
     (if rcpt \<noteq> lid then Normal w
      else
        and_then (lock w) (\<lambda>w.
          (case map_of (peers w) src of
             None \<Rightarrow> unlock w
           | Some c \<Rightarrow>
               unlock
                 (if candidates c \<in> closed_queues w then w
                  else w\<lparr>queue_senders := queue_senders w @ [(candidates c, pl)]\<rparr>))))"

text \<open>
  An answer (lines 742 to 805): the remote description is set on the connection of
  the entry, then the goroutine draining its queue is started. Ranging over a closed
  queue ends at once.
\<close>

definition on_answer :: "string \<Rightarrow> string \<Rightarrow> string \<Rightarrow> payload \<Rightarrow> world \<Rightarrow> outcome" where
  "on_answer lid src rcpt pl w =
     (if rcpt \<noteq> lid then Normal w
      else
        and_then (lock w) (\<lambda>w.
        (let found = map_of (peers w) src in
         and_then (unlock w) (\<lambda>w.
           (case found of
              None \<Rightarrow> Normal w
            | Some c \<Rightarrow>
                (case pl of
                   Raw b \<Rightarrow> Normal w
                 | SDP remote \<Rightarrow>
                     and_then (attempt SetRemoteDescription (conn c) w) (\<lambda>w.
                     (let w = w\<lparr>engine_log := RemoteDescriptionSet (conn c) # engine_log w\<rparr> in
                      Normal (if candidates c \<in> closed_queues w then w
                              else w\<lparr>drainers := drainers w @ [(candidates c, conn c)]\<rparr>)))))))))"

text \<open>The \<open>inputs\<close> case of the select (lines 260 to 812).\<close>

fun on_input :: "input \<Rightarrow> string \<Rightarrow> world \<Rightarrow> outcome" where
  "on_input Skipped new_iid w = Normal w"
| "on_input (Envelope (Introduction src)) new_iid w = on_introduction (local_id w) src new_iid w"
| "on_input (Envelope (Offer src rcpt pl)) new_iid w = on_offer (local_id w) src rcpt pl new_iid w"
| "on_input (Envelope (Candidate src rcpt pl)) new_iid w = on_candidate (local_id w) src rcpt pl w"
| "on_input (Envelope (Answer src rcpt pl)) new_iid w = on_answer (local_id w) src rcpt pl w"

text \<open>
  The \<open>a.lines\<close> case (lines 813 to 829). A receive from the closed channel is always
  ready and yields the nil line; on the open channel the case is ready when a goroutine
  is blocked sending.
\<close>

definition write_line :: "envelope option \<Rightarrow> world \<Rightarrow> outcome" where
  "write_line line w =
     and_then (attempt Encrypt (sock w) w) (\<lambda>w.
     and_then (attempt WriteMessage (sock w) w) (\<lambda>w.
     attempt SetWriteDeadline (sock w) (w\<lparr>sent := line # sent w\<rparr>)))"

definition on_line :: "world \<Rightarrow> outcome" where
  "on_line w =
     (if lines_closed w then write_line None w
      else
        (case lines_senders w of
           [] \<Rightarrow> Normal w
         | p # rest \<Rightarrow> write_line (Some p) (w\<lparr>lines_senders := rest\<rparr>)))"

text \<open>The ticker case (lines 830 to 841).\<close>

definition on_ping :: "world \<Rightarrow> outcome" where
  "on_ping w =
     and_then (attempt SetWriteDeadline (sock w) w) (\<lambda>w.
     attempt WriteMessage (sock w) w)"

text \<open>The \<open>errs\<close> case (line 258): ready when a goroutine is blocked sending an error.\<close>

definition on_errs :: "world \<Rightarrow> outcome" where
  "on_errs w =
     (case errs_senders w of
        [] \<Rightarrow> Normal w
      | e # rest \<Rightarrow> Panicked (PanicErr e) (w\<lparr>errs_senders := rest\<rparr>))"

text \<open>
  One round of a draining goroutine (lines 674 to 684 and 790 to 800): the drainer of
  queue \<open>q\<close> feeding connection \<open>c\<close> receives the candidate of the first goroutine
  blocked sending on \<open>q\<close>; a failing \<open>AddICECandidate\<close> is sent to \<open>errs\<close> and ends it.
\<close>

definition drain :: "handle \<Rightarrow> handle \<Rightarrow> world \<Rightarrow> world" where
  "drain q c w =
     (if (q, c) \<in> set (drainers w) then
        (case filter (\<lambda>s. fst s = q) (queue_senders w) of
           [] \<Rightarrow> w
         | s # _ \<Rightarrow>
             (let w = w\<lparr>queue_senders := remove1 s (queue_senders w)\<rparr> in
              (case fault w AddICECandidate c of
                 Some e \<Rightarrow> w\<lparr>errs_senders := errs_senders w @ [e],
                              drainers := remove1 (q, c) (drainers w)\<rparr>
               | None \<Rightarrow> w\<lparr>engine_log := CandidateAdded c (snd s) # engine_log w\<rparr>)))
      else w)"

subsection \<open>Leaving and entering a session\<close>

fun close_all :: "peer list \<Rightarrow> world \<Rightarrow> outcome" where
  "close_all [] w = Normal w"
| "close_all (p # rest) w = and_then (close_peer p w) (close_all rest)"

text \<open>The deferred function of lines 173 to 198.\<close>

definition session_teardown :: "world \<Rightarrow> outcome" where
  "session_teardown w =
     and_then (attempt SocketClose (sock w) w) (\<lambda>w.
     locked_deferred (\<lambda>w. close_all (map snd (peers w)) w) w)"

text \<open>The deferred function of lines 147 to 163: it empties the registry and recovers.\<close>

definition reset_registry :: "world \<Rightarrow> outcome" where
  "reset_registry w = and_then (lock w) (\<lambda>w. unlock (w\<lparr>peers := []\<rparr>))"

text \<open>
  The end of a session whose socket was opened: the deferred functions run in reverse
  order, a panic of the first does not keep the second from running, and the second
  recovers. A deferred function blocked on the lock blocks the goroutine.
\<close>

definition session_exit :: "world \<Rightarrow> world" where
  "session_exit w =
     (case session_teardown w of
        Blocked w' \<Rightarrow> w'\<lparr>session := Stuck\<rparr>
      | r \<Rightarrow>
          (case reset_registry (world_of r) of
             Blocked w' \<Rightarrow> w'\<lparr>session := Stuck\<rparr>
           | r' \<Rightarrow> (world_of r')\<lparr>session := Between\<rparr>))"

text \<open>
  One round of the outer loop up to the select (lines 141 to 254). \<open>uuid\<close> is the value
  of \<open>uuid.New().String()\<close>. The host is taken to receive the identity from \<open>ids\<close>.
\<close>

definition connect :: "string \<Rightarrow> world \<Rightarrow> world" where
  "connect uuid w =
     (if session w \<noteq> Between then w
      else if adapter_done w then w\<lparr>session := Stopped\<rparr>
      else
        (case attempt Dial (next_handle w) w of
           Normal w \<Rightarrow>
             (let s = next_handle w;
                  w = w\<lparr>sock := s, next_handle := Suc s, session := Running\<rparr> in
              (case attempt SetReadDeadline s w of
                 Normal w \<Rightarrow>
                   (let lid = (if TrimSpace (ID (config w)) = [] then uuid else ID (config w));
                        w = w\<lparr>local_id := lid, ids := ids w @ [lid]\<rparr> in
                    (case fault w Marshal s of
                       Some e \<Rightarrow> w\<lparr>errs_senders := errs_senders w @ [e]\<rparr>
                     | None \<Rightarrow> post (Introduction lid) w))
               | r \<Rightarrow> session_exit (world_of r)))
         | r \<Rightarrow>
             (case reset_registry (world_of r) of
                Blocked w' \<Rightarrow> w'\<lparr>session := Stuck\<rparr>
              | r' \<Rightarrow> world_of r')))"

subsection \<open>Open and Close\<close>

text \<open>
  \<open>Open\<close> up to the start of its goroutine: \<open>url_err\<close> is the error of
  \<open>url.Parse(a.signaler)\<close>, if any.
\<close>

definition Open :: "error option \<Rightarrow> world \<Rightarrow> failure + world" where
  "Open url_err w =
     (case url_err of
        Some e \<Rightarrow> Inl (Returned e)
      | None \<Rightarrow>
          (case parse_ice (ice w) [] of
             Inl f \<Rightarrow> Inl f
           | Inr iceServers \<Rightarrow> Inr (w\<lparr>session := Between\<rparr>)))"

text \<open>
  \<open>Close\<close> (lines 851 to 859); \<open>Normal\<close> is the return of nil. Closing \<open>a.lines\<close> makes
  the goroutines blocked sending on it panic, and nothing recovers them.
\<close>

definition Close :: "world \<Rightarrow> outcome" where
  "Close w =
     (let w = w\<lparr>adapter_done := True\<rparr>;
          w = w\<lparr>cancelled := True\<rparr> in
      if lines_closed w then Panicked CloseOfClosedChannel w
      else Normal (w\<lparr>lines_closed := True, lines_senders := [],
                     crashed := (crashed w \<or> lines_senders w \<noteq> [])\<rparr>))"

subsection \<open>Everything that can happen, one event at a time\<close>

datatype event =
    OpenCalled "error option"
  | Input input string
  | Line
  | Ping
  | Errs
  | TransportError error
  | Connect string
  | StateChangeIntroduction string string PeerConnectionState
  | StateChangeOffer string string PeerConnectionState
  | ICECandidate string handle "bytes option"
  | ChannelOpen string string handle
  | ChannelClosed string string
  | Drain handle handle
  | CloseCalled

text \<open>A case of the select: a panic unwinds the session, a block stops the goroutine.\<close>

definition in_session :: "(world \<Rightarrow> outcome) \<Rightarrow> world \<Rightarrow> world" where
  "in_session body w =
     (if session w \<noteq> Running then w
      else
        (case body w of
           Normal w' \<Rightarrow> w'
         | Panicked f w' \<Rightarrow> session_exit w'
         | Blocked w' \<Rightarrow> w'\<lparr>session := Stuck\<rparr>))"

text \<open>
  A callback, or a call by the host: it runs on a goroutine of its own, where nothing
  recovers a panic.
\<close>

definition on_goroutine :: "(world \<Rightarrow> outcome) \<Rightarrow> world \<Rightarrow> world" where
  "on_goroutine body w =
     (case body w of
        Normal w' \<Rightarrow> w'
      | Panicked f w' \<Rightarrow> w'\<lparr>crashed := True\<rparr>
      | Blocked w' \<Rightarrow> w')"

text \<open>
  The host calls \<open>Open\<close>: an error is returned to the host, a panic is the host's. The
  state has one goroutine of \<open>Open\<close>; a second call of \<open>Open\<close> is outside of it.
\<close>

definition open_called :: "error option \<Rightarrow> world \<Rightarrow> world" where
  "open_called url_err w =
     (if session w \<noteq> Unopened then w
      else
        (case Open url_err w of
           Inr w' \<Rightarrow> w'
         | Inl (Returned e) \<Rightarrow> w
         | Inl f \<Rightarrow> w\<lparr>crashed := True\<rparr>))"

fun step :: "world \<Rightarrow> event \<Rightarrow> world" where
  "step w (OpenCalled url_err) = open_called url_err w"
| "step w (Input i new_iid) = in_session (on_input i new_iid) w"
| "step w Line = in_session on_line w"
| "step w Ping = in_session on_ping w"
| "step w Errs = in_session on_errs w"
| "step w (TransportError e) = in_session (Panicked (PanicErr e)) w"
| "step w (Connect uuid) = connect uuid w"
| "step w (StateChangeIntroduction src i pcs) = on_goroutine (on_state_change_introduction src i pcs) w"
| "step w (StateChangeOffer src i pcs) = on_goroutine (on_state_change_offer src i pcs) w"
| "step w (ICECandidate src c i) = on_goroutine (on_ice_candidate (local_id w) src c i) w"
| "step w (ChannelOpen src label h) = on_goroutine (on_open src label h) w"
| "step w (ChannelClosed src label) = on_goroutine (on_close src label) w"
| "step w (Drain q c) = drain q c w"
| "step w CloseCalled = on_goroutine Close w"

definition run :: "world \<Rightarrow> event list \<Rightarrow> world" where
  "run w evs = foldl step w evs"

text \<open>No candidate was added to a connection before its remote description was set.\<close>

fun description_first :: "engine_event list \<Rightarrow> bool" where
  "description_first [] = True"
| "description_first (CandidateAdded c x # earlier) =
     (RemoteDescriptionSet c \<in> set earlier \<and> description_first earlier)"
| "description_first (RemoteDescriptionSet c # earlier) = description_first earlier"

subsection \<open>Concrete states\<close>

text \<open>Libraries none of whose calls fails, and libraries where exactly one call fails.\<close>

definition no_fault :: "call \<Rightarrow> handle \<Rightarrow> error option" where
  "no_fault c h = None"


text \<open>
  An adapter with identity A that has connected to the signaler (socket 0), received
  the introduction of B and sent its offer: B's entry has connection 1, primary channel 2
  and queue 3.
\<close>

definition connected_to_B :: "(call \<Rightarrow> handle \<Rightarrow> error option) \<Rightarrow> world" where
  "connected_to_B flt =
     run (NewAdapter [] (Some \<lparr>Timeout = Second * 10, Verbose = False, ID = ''A'',
                               PrimaryChannelID = []\<rparr>) flt)
       [OpenCalled None, Connect ''u0'', Line,
        Input (Envelope (Introduction ''B'')) ''i1'', Line]"

subsection \<open>Predicates of the proofs\<close>

text \<open>
  Every draining goroutine feeds a connection whose remote description is set, and
  the log has no candidate before the description of its connection.
\<close>

definition drainers_described :: "world \<Rightarrow> bool" where
  "drainers_described w =
     (description_first (engine_log w) \<and>
      (\<forall>d \<in> set (drainers w). RemoteDescriptionSet (snd d) \<in> set (engine_log w)))"

definition kept :: "AdapterConfig \<Rightarrow> world \<Rightarrow> bool" where
  "kept cfg w = (config w = cfg \<and> drainers_described w)"

definition described :: "AdapterConfig \<Rightarrow> handle \<Rightarrow> world \<Rightarrow> bool" where
  "described cfg c w = (kept cfg w \<and> RemoteDescriptionSet c \<in> set (engine_log w))"



section \<open>Properties\<close>

subsection \<open>Library functions\<close>

lemma Split_nonempty: "Split s sep \<noteq> []"
  by (induction s) (auto split: list.splits)

lemma Split_length: "length (Split s sep) = Suc (count_list s sep)"
  by (induction s) (auto split: list.splits)

lemma Split_first: "Split s sep ! 0 = takeWhile (\<lambda>c. c \<noteq> sep) s"
  by (induction s) (auto simp: Split_nonempty split: list.splits)

lemma Split_without: "sep \<notin> set s \<Longrightarrow> Split s sep = [s]"
  by (induction s) auto

lemma count_list_pos: "x \<in> set xs \<Longrightarrow> 0 < count_list xs x"
  by (induction xs) auto

lemma count_list_zero: "x \<notin> set xs \<Longrightarrow> count_list xs x = 0"
  by (induction xs) auto

subsection \<open>ICE server parsing\<close>

lemma parse_ice_entry_not_missing:
  "parse_ice_entry entry \<noteq> Inl (Returned ErrMissingTURNCredentials)"
  by (auto simp: parse_ice_entry_def index_def Let_def split: sum.splits)

lemma parse_ice_not_missing:
  "parse_ice ices acc \<noteq> Inl (Returned ErrMissingTURNCredentials)"
proof (induction ices arbitrary: acc)
  case Nil
  show ?case by simp
next
  case (Cons entry rest)
  show ?case
    using Cons.IH parse_ice_entry_not_missing [of entry]
    by (auto split: sum.splits option.splits)
qed

text \<open>
  The entries that are not blank and have no \<open>stun:\<close>: without an \<open>@\<close> the entry is
  refused with \<open>ErrInvalidTURNServerAddr\<close>; with an \<open>@\<close> and a colon before it, the
  descriptor is made; with an \<open>@\<close> and no colon before it, \<open>Open\<close> panics.
\<close>

lemma no_at_sign:
  "TrimSpace entry \<noteq> [] \<Longrightarrow> \<not> Contains entry ''stun:'' \<Longrightarrow> CHR ''@'' \<notin> set entry \<Longrightarrow>
   parse_ice_entry entry = Inl (Returned ErrInvalidTURNServerAddr)"
  by (simp add: parse_ice_entry_def Split_without)

lemma no_colon_panics:
  assumes "TrimSpace entry \<noteq> []" "\<not> Contains entry ''stun:''" "CHR ''@'' \<in> set entry"
    "CHR '':'' \<notin> set (takeWhile (\<lambda>c. c \<noteq> CHR ''@'') entry)"
  shows "parse_ice_entry entry = Inl (IndexOutOfRange 1 1)"
proof -
  have parts: "\<not> length (Split entry CHR ''@'') < 2"
    using assms(3) count_list_pos [of "CHR ''@''" entry] by (simp add: Split_length)
  have auth: "Split (Split entry CHR ''@'' ! 0) CHR '':'' = [takeWhile (\<lambda>c. c \<noteq> CHR ''@'') entry]"
    using assms(4) by (simp add: Split_first Split_without)
  show ?thesis
    using assms(1,2) parts
    by (simp add: parse_ice_entry_def Let_def auth index_def)
qed

lemma turn_descriptor:
  assumes "TrimSpace entry \<noteq> []" "\<not> Contains entry ''stun:''" "CHR ''@'' \<in> set entry"
    "CHR '':'' \<in> set (takeWhile (\<lambda>c. c \<noteq> CHR ''@'') entry)"
  shows "parse_ice_entry entry =
    Inr (Some \<lparr>URLs = [Split entry CHR ''@'' ! 1],
               Username = Split (Split entry CHR ''@'' ! 0) CHR '':'' ! 0,
               Credential = Some (Split (Split entry CHR ''@'' ! 0) CHR '':'' ! 1),
               CredentialType = ICECredentialTypePassword\<rparr>)"
proof -
  have parts: "\<not> length (Split entry CHR ''@'') < 2"
    using assms(3) count_list_pos [of "CHR ''@''" entry] by (simp add: Split_length)
  have auth: "\<not> length (Split (Split entry CHR ''@'' ! 0) CHR '':'') < 2"
    using assms(4) count_list_pos [of "CHR '':''" "takeWhile (\<lambda>c. c \<noteq> CHR ''@'') entry"]
    by (simp add: Split_length Split_first)
  show ?thesis
    using assms(1,2) parts auth
    by (auto simp: parse_ice_entry_def Let_def index_def)
qed

text \<open>
  C4. An entry \<open>user@url\<close> whose part before the \<open>@\<close> has no colon makes \<open>Open\<close> panic
  with an index out of range: the length check before \<open>authParts[1]\<close> tests \<open>addrParts\<close>
  again, so that no list of entries makes \<open>Open\<close> return \<open>ErrMissingTURNCredentials\<close>.
\<close>

theorem missing_credentials_panic:
  "parse_ice_entry ''user@turn.example.com'' = Inl (IndexOutOfRange 1 1) \<and>
   Open None (NewAdapter [''user@turn.example.com''] None no_fault) = Inl (IndexOutOfRange 1 1) \<and>
   (\<forall>ices acc. parse_ice ices acc \<noteq> Inl (Returned ErrMissingTURNCredentials))"
proof -
  have entry: "parse_ice_entry ''user@turn.example.com'' = Inl (IndexOutOfRange 1 1)"
    by (simp add: parse_ice_entry_def TrimSpace_def space_runes_def strip_rune_def
          index_def Let_def)
  have "Open None (NewAdapter [''user@turn.example.com''] None no_fault) =
          Inl (IndexOutOfRange 1 1)"
    by (simp add: Open_def NewAdapter_def entry)
  with entry show ?thesis
    using parse_ice_not_missing by blast
qed

subsection \<open>The byte stream\<close>

text \<open>
  C8. \<open>Read\<close> blocks exactly while no message is offered. When a datagram is offered,
  it copies the first \<open>min (len buf) (len datagram)\<close> bytes into the buffer, returns that
  count with no error, and the rest of the datagram is gone: the adapter holds only
  the messages that came later. When the channel has closed, \<open>Read\<close> returns \<open>io.EOF\<close>.
\<close>

theorem Read_datagram_or_end_of_stream:
  "(Read d p = None) = (msgs d = []) \<and>
   (msgs d = \<lparr>data = dg, err = None\<rparr> # rest \<longrightarrow>
      Read d p =
        Some (int (min (length p) (length dg)), None,
              take (min (length p) (length dg)) dg @ drop (min (length p) (length dg)) p,
              d\<lparr>msgs := rest\<rparr>)) \<and>
   Read (OnMessage (newDataChannelReadWriteCloser h) dg) p =
     Some (int (min (length p) (length dg)), None,
           take (min (length p) (length dg)) dg @ drop (min (length p) (length dg)) p,
           newDataChannelReadWriteCloser h) \<and>
   (\<exists>n. Read (OnClose (newDataChannelReadWriteCloser h)) p =
          Some (n, Some EOF, p, newDataChannelReadWriteCloser h))"
  by (auto simp: Read_def OnMessage_def OnClose_def newDataChannelReadWriteCloser_def
        copy_def Let_def split: list.splits option.splits)

theorem Read_datagram_or_end_of_stream_witness:
  "msgs (OnMessage (newDataChannelReadWriteCloser 7) ''hello world'') =
     \<lparr>data = ''hello world'', err = None\<rparr> # [] \<and>
   Read (OnMessage (newDataChannelReadWriteCloser 7) ''hello world'') ''abcd'' =
     Some (4, None, ''hell'', newDataChannelReadWriteCloser 7) \<and>
   Read (newDataChannelReadWriteCloser 7) ''abcd'' = None"
  using Read_datagram_or_end_of_stream
    [of "OnMessage (newDataChannelReadWriteCloser 7) ''hello world''" "''abcd''"
        "''hello world''" "[]" 7]
    Read_datagram_or_end_of_stream [of "newDataChannelReadWriteCloser 7" "''abcd''"]
  by (simp add: OnMessage_def newDataChannelReadWriteCloser_def)

text \<open>
  C10. Whenever \<open>Read\<close> or \<open>Write\<close> returns an error, the count it returns is -1: \<open>Read\<close>
  for a message carrying an error, which includes \<open>(-1, io.EOF)\<close> after the channel has
  closed, and \<open>Write\<close> when \<open>Send\<close> fails.
\<close>

theorem failure_count_is_minus_one:
  "(Read d p = Some (n, Some e, p', d') \<longrightarrow> n = - 1) \<and>
   (Write send p = (m, Some e) \<longrightarrow> m = - 1) \<and>
   (msgs d = \<lparr>data = dg, err = Some e\<rparr> # rest \<longrightarrow>
      Read d p = Some (- 1, Some e, p, d\<lparr>msgs := rest\<rparr>)) \<and>
   Read (OnClose (newDataChannelReadWriteCloser h)) p =
     Some (- 1, Some EOF, p, newDataChannelReadWriteCloser h) \<and>
   Write (Some e) p = (- 1, Some e)"
  by (auto simp: Read_def Write_def OnClose_def newDataChannelReadWriteCloser_def
        copy_def Let_def split: list.splits option.splits)

theorem failure_count_is_minus_one_witness:
  "Read (OnClose (newDataChannelReadWriteCloser 7)) ''abcd'' =
     Some (- 1, Some EOF, ''abcd'', newDataChannelReadWriteCloser 7) \<and>
   Write (Some (LibErr ''closed'')) ''abcd'' = (- 1, Some (LibErr ''closed'')) \<and>
   msgs (OnClose (newDataChannelReadWriteCloser 7)) = \<lparr>data = [], err = Some EOF\<rparr> # []"
  using failure_count_is_minus_one
    [of "OnClose (newDataChannelReadWriteCloser 7)" "''abcd''" "- 1" "LibErr ''closed''"
        "''abcd''" "newDataChannelReadWriteCloser 7" "Some (LibErr ''closed'')" "- 1" "[]" "[]" 7]
  by (simp add: OnClose_def newDataChannelReadWriteCloser_def)

subsection \<open>Close\<close>

text \<open>
  C7, as the claim states it, fails: the second \<open>Close\<close> on a new adapter panics, because
  it closes the channel \<open>lines\<close> that the first call closed.
\<close>

theorem Close_twice_panics:
  "Close (world_of (Close (NewAdapter [] None no_fault))) =
     Panicked CloseOfClosedChannel (world_of (Close (NewAdapter [] None no_fault)))"
  by (simp add: Close_def NewAdapter_def Let_def)

text \<open>
  C7, amended. A \<open>Close\<close> on an adapter whose channel \<open>lines\<close> is open returns nil and
  leaves the adapter done, cancelled and with \<open>lines\<close> closed; one more \<open>Close\<close> panics on
  the closed channel and changes nothing else.
\<close>

theorem Close_once:
  "\<not> lines_closed w \<longrightarrow>
     (\<exists>w'. Close w = Normal w' \<and> adapter_done w' \<and> cancelled w' \<and> lines_closed w' \<and>
           Close w' = Panicked CloseOfClosedChannel w')"
  by (simp add: Close_def Let_def)

theorem Close_once_witness:
  "\<not> lines_closed (NewAdapter [] None no_fault) \<and>
   (\<exists>w'. Close (NewAdapter [] None no_fault) = Normal w' \<and> adapter_done w' \<and>
         cancelled w' \<and> lines_closed w' \<and> Close w' = Panicked CloseOfClosedChannel w')"
proof -
  have open_lines: "\<not> lines_closed (NewAdapter [] None no_fault)"
    by (simp add: NewAdapter_def)
  with Close_once [of "NewAdapter [] None no_fault"] show ?thesis
    by blast
qed

subsection \<open>What every event keeps\<close>

lemma and_then_stable:
  "P (world_of m) \<Longrightarrow> (\<And>w'. P w' \<Longrightarrow> P (world_of (k w'))) \<Longrightarrow> P (world_of (and_then m k))"
  by (cases m) auto

lemma kept_other_fields [simp]:
  "kept cfg (w\<lparr>adapter_done := b\<rparr>) = kept cfg w"
  "kept cfg (w\<lparr>cancelled := b\<rparr>) = kept cfg w"
  "kept cfg (w\<lparr>lines_closed := b\<rparr>) = kept cfg w"
  "kept cfg (w\<lparr>lines_senders := ls\<rparr>) = kept cfg w"
  "kept cfg (w\<lparr>accepted := acs\<rparr>) = kept cfg w"
  "kept cfg (w\<lparr>peers := ps\<rparr>) = kept cfg w"
  "kept cfg (w\<lparr>peerLock := b\<rparr>) = kept cfg w"
  "kept cfg (w\<lparr>session := st\<rparr>) = kept cfg w"
  "kept cfg (w\<lparr>local_id := s\<rparr>) = kept cfg w"
  "kept cfg (w\<lparr>sock := h\<rparr>) = kept cfg w"
  "kept cfg (w\<lparr>ids := is\<rparr>) = kept cfg w"
  "kept cfg (w\<lparr>errs_senders := es\<rparr>) = kept cfg w"
  "kept cfg (w\<lparr>next_handle := h\<rparr>) = kept cfg w"
  "kept cfg (w\<lparr>closed_conns := hs\<rparr>) = kept cfg w"
  "kept cfg (w\<lparr>closed_channels := hs\<rparr>) = kept cfg w"
  "kept cfg (w\<lparr>closed_queues := hs\<rparr>) = kept cfg w"
  "kept cfg (w\<lparr>queue_senders := qs\<rparr>) = kept cfg w"
  "kept cfg (w\<lparr>sent := fs\<rparr>) = kept cfg w"
  "kept cfg (w\<lparr>crashed := b\<rparr>) = kept cfg w"
  by (simp_all add: kept_def drainers_described_def)

lemma kept_fewer_drainers:
  "kept cfg w \<Longrightarrow> set ds \<subseteq> set (drainers w) \<Longrightarrow> kept cfg (w\<lparr>drainers := ds\<rparr>)"
  by (auto simp: kept_def drainers_described_def)

lemma kept_description_set:
  "kept cfg w \<Longrightarrow> kept cfg (w\<lparr>engine_log := RemoteDescriptionSet c # engine_log w\<rparr>)"
  by (auto simp: kept_def drainers_described_def)

lemma kept_description_set_drainer:
  "kept cfg w \<Longrightarrow>
   kept cfg (w\<lparr>engine_log := RemoteDescriptionSet c # engine_log w,
              drainers := drainers w @ [(q, c)]\<rparr>)"
  by (auto simp: kept_def drainers_described_def)

lemma kept_attempt: "kept cfg w \<Longrightarrow> kept cfg (world_of (attempt c h w))"
  by (simp add: attempt_def split: option.splits)

lemma kept_lock: "kept cfg w \<Longrightarrow> kept cfg (world_of (lock w))"
  by (simp add: lock_def)

lemma kept_unlock: "kept cfg w \<Longrightarrow> kept cfg (world_of (unlock w))"
  by (simp add: unlock_def)

lemma kept_post: "kept cfg w \<Longrightarrow> kept cfg (post p w)"
  by (simp add: post_def)

lemma kept_channel_Close: "kept cfg w \<Longrightarrow> kept cfg (world_of (channel_Close h w))"
  unfolding channel_Close_def
  by (rule and_then_stable [where P = "kept cfg"]) (simp_all add: kept_attempt)

lemma kept_conn_Close: "kept cfg w \<Longrightarrow> kept cfg (world_of (conn_Close h w))"
  unfolding conn_Close_def
  by (rule and_then_stable [where P = "kept cfg"]) (simp_all add: kept_attempt)

lemma kept_close_queue: "kept cfg w \<Longrightarrow> kept cfg (world_of (close_queue q w))"
  by (simp add: close_queue_def kept_fewer_drainers)

lemma kept_close_channels: "kept cfg w \<Longrightarrow> kept cfg (world_of (close_channels chs w))"
proof (induction chs arbitrary: w)
  case Nil
  then show ?case by simp
next
  case (Cons ch chs)
  show ?case
    unfolding close_channels.simps
    by (rule and_then_stable [where P = "kept cfg"]) (simp_all add: kept_channel_Close Cons)
qed

lemma kept_close_peer: "kept cfg w \<Longrightarrow> kept cfg (world_of (close_peer p w))"
  unfolding close_peer_def
  by (intro and_then_stable [where P = "kept cfg"] kept_close_channels kept_conn_Close
        kept_close_queue)

lemma kept_close_all: "kept cfg w \<Longrightarrow> kept cfg (world_of (close_all ps w))"
proof (induction ps arbitrary: w)
  case Nil
  then show ?case by simp
next
  case (Cons p ps)
  show ?case
    unfolding close_all.simps
    by (rule and_then_stable [where P = "kept cfg"]) (simp_all add: kept_close_peer Cons)
qed

lemma locked_deferred_stable:
  assumes body: "\<And>w'. P w' \<Longrightarrow> P (world_of (body w'))"
    and flag: "\<And>w' b. P w' \<Longrightarrow> P (w'\<lparr>peerLock := b\<rparr>)"
    and w: "P w"
  shows "P (world_of (locked_deferred body w))"
proof -
  have "P (world_of (case body w' of
          Normal w'' \<Rightarrow> Normal (w''\<lparr>peerLock := False\<rparr>)
        | Panicked f w'' \<Rightarrow> Panicked f (w''\<lparr>peerLock := False\<rparr>)
        | Blocked w'' \<Rightarrow> Blocked w''))" if "P w'" for w'
    using body [OF that] by (cases "body w'") (simp_all add: flag)
  moreover have "P (world_of (lock w))"
    using w by (simp add: lock_def flag)
  ultimately show ?thesis
    unfolding locked_deferred_def
    by (intro and_then_stable [where P = P])
qed

lemma kept_locked_deferred:
  assumes "\<And>w'. kept cfg w' \<Longrightarrow> kept cfg (world_of (body w'))" and "kept cfg w"
  shows "kept cfg (world_of (locked_deferred body w))"
  using assms by (intro locked_deferred_stable [where P = "kept cfg"]) simp_all

lemma kept_on_state_change_introduction:
  "kept cfg w \<Longrightarrow> kept cfg (world_of (on_state_change_introduction src i pcs w))"
  unfolding on_state_change_introduction_def
  by (auto intro!: kept_locked_deferred and_then_stable [where P = "kept cfg"] kept_close_peer
        split: option.splits)

lemma kept_on_state_change_offer:
  "kept cfg w \<Longrightarrow> kept cfg (world_of (on_state_change_offer src i pcs w))"
  unfolding on_state_change_offer_def
  by (auto intro!: kept_locked_deferred and_then_stable [where P = "kept cfg"] kept_conn_Close
        kept_close_queue split: option.splits)

lemma kept_on_ice_candidate:
  "kept cfg w \<Longrightarrow> kept cfg (world_of (on_ice_candidate lid src c i w))"
  unfolding on_ice_candidate_def
  by (auto intro!: and_then_stable [where P = "kept cfg"] kept_attempt kept_post
        split: option.splits)

lemma kept_on_open: "kept cfg w \<Longrightarrow> kept cfg (world_of (on_open src label h w))"
  unfolding on_open_def
  by (auto intro!: and_then_stable [where P = "kept cfg"] kept_lock simp: unlock_def
        split: option.splits)

lemma kept_on_close: "kept cfg w \<Longrightarrow> kept cfg (world_of (on_close src label w))"
  unfolding on_close_def
  by (auto intro!: kept_locked_deferred and_then_stable [where P = "kept cfg"] kept_channel_Close
        split: option.splits)

lemma kept_on_introduction:
  "kept cfg w \<Longrightarrow> kept cfg (world_of (on_introduction lid src i w))"
  unfolding on_introduction_def Let_def
  by (auto intro!: and_then_stable [where P = "kept cfg"] kept_attempt kept_lock kept_close_peer
        simp: kept_post unlock_def split: option.splits)

lemma described_attempt: "described cfg c w \<Longrightarrow> described cfg c (world_of (attempt k h w))"
  by (simp add: attempt_def split: option.splits)

lemma described_lock: "described cfg c w \<Longrightarrow> described cfg c (world_of (lock w))"
  by (simp add: lock_def described_def)

lemma described_answer_offer:
  "described cfg c w \<Longrightarrow> described cfg c (world_of (answer_offer lid src i c w))"
  unfolding answer_offer_def Let_def
  by (intro and_then_stable [where P = "described cfg c"] described_attempt described_lock)
     (auto simp: unlock_def post_def described_def kept_def drainers_described_def)

lemma kept_answer_offer:
  "kept cfg w \<Longrightarrow>
   kept cfg (world_of (answer_offer lid src i c
     (w\<lparr>engine_log := RemoteDescriptionSet c # engine_log w\<rparr>)))"
  using described_answer_offer
    [of cfg c "w\<lparr>engine_log := RemoteDescriptionSet c # engine_log w\<rparr>" lid src i]
  by (simp add: described_def kept_description_set)

lemma kept_on_offer:
  "kept cfg w \<Longrightarrow> kept cfg (world_of (on_offer lid src rcpt pl i w))"
  unfolding on_offer_def Let_def
  by (auto intro!: and_then_stable [where P = "kept cfg"] kept_attempt kept_answer_offer
        split: payload.splits)

lemma kept_on_candidate:
  "kept cfg w \<Longrightarrow> kept cfg (world_of (on_candidate lid src rcpt pl w))"
  unfolding on_candidate_def
  by (auto intro!: and_then_stable [where P = "kept cfg"] kept_lock
        simp: unlock_def split: option.splits)

lemma kept_on_answer:
  "kept cfg w \<Longrightarrow> kept cfg (world_of (on_answer lid src rcpt pl w))"
  unfolding on_answer_def Let_def
  by (auto intro!: and_then_stable [where P = "kept cfg"] kept_lock kept_unlock kept_attempt
        kept_description_set kept_description_set_drainer
        split: option.splits payload.splits)

lemma kept_on_input:
  "kept cfg w \<Longrightarrow> kept cfg (world_of (on_input i new_iid w))"
  by (cases "(i, new_iid, w)" rule: on_input.cases)
     (simp_all add: kept_on_introduction kept_on_offer kept_on_candidate kept_on_answer)

lemma kept_write_line: "kept cfg w \<Longrightarrow> kept cfg (world_of (write_line line w))"
  unfolding write_line_def
  by (auto intro!: and_then_stable [where P = "kept cfg"] kept_attempt)

lemma kept_on_line: "kept cfg w \<Longrightarrow> kept cfg (world_of (on_line w))"
  unfolding on_line_def
  by (auto intro!: kept_write_line split: list.splits)

lemma kept_on_ping: "kept cfg w \<Longrightarrow> kept cfg (world_of (on_ping w))"
  unfolding on_ping_def
  by (intro and_then_stable [where P = "kept cfg"] kept_attempt)

lemma kept_on_errs: "kept cfg w \<Longrightarrow> kept cfg (world_of (on_errs w))"
  by (auto simp: on_errs_def split: list.splits)

lemma kept_drain: "kept cfg w \<Longrightarrow> kept cfg (drain q c w)"
proof -
  assume w: "kept cfg w"
  have less: "d \<in> set (drainers w)" if "d \<in> set (remove1 (q, c) (drainers w))" for d
    using that by (meson notin_set_remove1)
  show ?thesis
    using w
    by (auto simp: drain_def kept_def drainers_described_def Let_def
          split: list.splits option.splits dest: less)
qed

lemma kept_session_teardown: "kept cfg w \<Longrightarrow> kept cfg (world_of (session_teardown w))"
  unfolding session_teardown_def
  by (intro and_then_stable [where P = "kept cfg"] kept_attempt kept_locked_deferred
        kept_close_all)

lemma kept_reset_registry: "kept cfg w \<Longrightarrow> kept cfg (world_of (reset_registry w))"
  unfolding reset_registry_def
  by (rule and_then_stable [where P = "kept cfg"]) (simp_all add: kept_lock unlock_def)

lemma kept_session_exit: "kept cfg w \<Longrightarrow> kept cfg (session_exit w)"
proof -
  assume w: "kept cfg w"
  have t: "kept cfg (world_of (session_teardown w))"
    using w by (rule kept_session_teardown)
  have r: "kept cfg (world_of (reset_registry (world_of (session_teardown w))))"
    using t by (rule kept_reset_registry)
  show ?thesis
    using t r unfolding session_exit_def
    by (auto split: outcome.splits)
qed

lemma kept_unless_blocked:
  "kept cfg (world_of r) \<Longrightarrow>
   kept cfg (case r of Blocked w' \<Rightarrow> w'\<lparr>session := Stuck\<rparr> | r' \<Rightarrow> world_of r')"
  by (cases r) simp_all

lemma kept_connect: "kept cfg w \<Longrightarrow> kept cfg (connect uuid w)"
proof -
  assume w: "kept cfg w"
  show ?thesis
  proof (cases "session w \<noteq> Between \<or> adapter_done w")
    case True
    with w show ?thesis
      by (auto simp: connect_def)
  next
    case ready: False
    show ?thesis
    proof (cases "fault w Dial (next_handle w)")
      case (Some e)
      have "kept cfg (world_of (reset_registry w))"
        using w by (rule kept_reset_registry)
      then have "kept cfg (case reset_registry w of
          Blocked w' \<Rightarrow> w'\<lparr>session := Stuck\<rparr> | r' \<Rightarrow> world_of r')"
        by (rule kept_unless_blocked)
      with ready Some show ?thesis
        by (simp add: connect_def attempt_def)
    next
      case dialled: None
      let ?w = "w\<lparr>sock := next_handle w, next_handle := Suc (next_handle w), session := Running\<rparr>"
      have started: "kept cfg ?w"
        using w by simp
      show ?thesis
      proof (cases "fault w SetReadDeadline (next_handle w)")
        case (Some e)
        have "kept cfg (session_exit ?w)"
          using started by (rule kept_session_exit)
        with ready dialled Some show ?thesis
          by (simp add: connect_def attempt_def Let_def)
      next
        case None
        with ready dialled w show ?thesis
          by (simp add: connect_def attempt_def post_def Let_def split: option.splits)
      qed
    qed
  qed
qed

lemma kept_Close: "kept cfg w \<Longrightarrow> kept cfg (world_of (Close w))"
  by (simp add: Close_def Let_def)

lemma kept_in_session:
  assumes "\<And>w'. kept cfg w' \<Longrightarrow> kept cfg (world_of (body w'))" and "kept cfg w"
  shows "kept cfg (in_session body w)"
  using assms(2) assms(1) [OF assms(2)] kept_session_exit [of cfg "world_of (body w)"]
  by (cases "body w") (auto simp: in_session_def)

lemma kept_on_goroutine:
  assumes "\<And>w'. kept cfg w' \<Longrightarrow> kept cfg (world_of (body w'))" and "kept cfg w"
  shows "kept cfg (on_goroutine body w)"
  using assms(1) [OF assms(2)]
  by (cases "body w") (auto simp: on_goroutine_def)

lemma kept_open_called: "kept cfg w \<Longrightarrow> kept cfg (open_called url_err w)"
  by (auto simp: open_called_def Open_def split: option.splits sum.splits failure.splits)

lemma kept_step: "kept cfg w \<Longrightarrow> kept cfg (step w ev)"
  by (cases ev)
     (simp_all add: kept_open_called kept_in_session kept_on_goroutine kept_on_input kept_on_line kept_on_ping
        kept_on_errs kept_connect kept_on_state_change_introduction kept_on_state_change_offer
        kept_on_ice_candidate kept_on_open kept_on_close kept_drain kept_Close)

lemma kept_run: "kept cfg w \<Longrightarrow> kept cfg (run w evs)"
  unfolding run_def by (induction evs arbitrary: w) (simp_all add: kept_step)

lemma kept_NewAdapter: "kept (NewAdapter_config c) (NewAdapter ices c flt)"
  by (simp add: kept_def drainers_described_def NewAdapter_def)


subsection \<open>Outcomes that are normal\<close>

lemma and_then_Normal:
  "(and_then m k = Normal w') = (\<exists>w1. m = Normal w1 \<and> k w1 = Normal w')"
  by (cases m) auto

lemma attempt_Normal: "(attempt c h w = Normal w') = (fault w c h = None \<and> w' = w)"
  by (auto simp: attempt_def split: option.splits)

lemma lock_Normal: "(lock w = Normal w') = (\<not> peerLock w \<and> w' = w\<lparr>peerLock := True\<rparr>)"
  by (auto simp: lock_def)

lemma unlocked_same: "\<not> peerLock w \<Longrightarrow> w\<lparr>peerLock := False\<rparr> = w"
  by (cases w) simp

lemma locked_deferred_skip:
  "body (w\<lparr>peerLock := True\<rparr>) = Normal (w\<lparr>peerLock := True\<rparr>) \<Longrightarrow>
   locked_deferred body w = (if peerLock w then Blocked w else Normal w)"
  by (simp add: locked_deferred_def lock_def unlocked_same)

subsection \<open>The concrete state\<close>

lemma connected_to_B_eq:
  assumes "flt Dial 0 = None" "flt SetReadDeadline 0 = None" "flt Marshal 0 = None"
    "flt Encrypt 0 = None" "flt WriteMessage 0 = None" "flt SetWriteDeadline 0 = None"
    "flt NewPeerConnection 1 = None" "flt CreateDataChannel 1 = None"
    "flt CreateOffer 1 = None" "flt SetLocalDescription 1 = None" "flt Marshal 1 = None"
  shows "connected_to_B flt =
    \<lparr>config = \<lparr>Timeout = 10000000000, Verbose = False, ID = ''A'',
                PrimaryChannelID = ''primary''\<rparr>,
     ice = [], adapter_done = False, cancelled = False, lines_closed = False,
     lines_senders = [], accepted = [],
     peers = [(''B'', \<lparr>conn = 1, candidates = 3, channels = [(''primary'', 2)],
                       iid = ''i1''\<rparr>)],
     peerLock = False, session = Running, local_id = ''A'', sock = 0,
     ids = [''A''], errs_senders = [], fault = flt, next_handle = 4,
     closed_conns = {}, closed_channels = {}, closed_queues = {},
     queue_senders = [], drainers = [], engine_log = [],
     sent = [Some (Offer ''A'' ''B'' (SDP 1)), Some (Introduction ''A'')],
     crashed = False\<rparr>"
  using assms
  by (simp add: connected_to_B_def run_def NewAdapter_def NewAdapter_config_def Second_def
        TrimSpace_def space_runes_def strip_rune_def open_called_def Open_def connect_def
        attempt_def post_def in_session_def on_line_def write_line_def on_introduction_def
        lock_def unlock_def Let_def)

subsection \<open>The registry\<close>

text \<open>
  C1. B has an entry (connection 1, channel 2, queue 3) and an offer from B arrives:
  the new entry is stored over the old one, and the connection, the channel and the
  queue of the old entry are left open. An introduction from B in the same state closes
  all three before it stores its entry.
\<close>

theorem offer_leaves_old_entry_open:
  "map_of (peers (step (connected_to_B no_fault)
       (Input (Envelope (Offer ''B'' ''A'' (SDP 9))) ''i2''))) ''B'' =
     Some \<lparr>conn = 4, candidates = 5, channels = [], iid = ''i2''\<rparr> \<and>
   1 \<notin> closed_conns (step (connected_to_B no_fault)
       (Input (Envelope (Offer ''B'' ''A'' (SDP 9))) ''i2'')) \<and>
   2 \<notin> closed_channels (step (connected_to_B no_fault)
       (Input (Envelope (Offer ''B'' ''A'' (SDP 9))) ''i2'')) \<and>
   3 \<notin> closed_queues (step (connected_to_B no_fault)
       (Input (Envelope (Offer ''B'' ''A'' (SDP 9))) ''i2'')) \<and>
   map_of (peers (step (connected_to_B no_fault)
       (Input (Envelope (Introduction ''B'')) ''i2''))) ''B'' =
     Some \<lparr>conn = 4, candidates = 6, channels = [(''primary'', 5)], iid = ''i2''\<rparr> \<and>
   1 \<in> closed_conns (step (connected_to_B no_fault)
       (Input (Envelope (Introduction ''B'')) ''i2'')) \<and>
   2 \<in> closed_channels (step (connected_to_B no_fault)
       (Input (Envelope (Introduction ''B'')) ''i2'')) \<and>
   3 \<in> closed_queues (step (connected_to_B no_fault)
       (Input (Envelope (Introduction ''B'')) ''i2''))"
  by (simp add: connected_to_B_eq no_fault_def in_session_def on_offer_def answer_offer_def
        on_introduction_def close_peer_def channel_Close_def conn_Close_def close_queue_def
        attempt_def lock_def unlock_def post_def Let_def)

lemma stale_introduction:
  "(case map_of (peers w) src of None \<Rightarrow> True | Some c \<Rightarrow> iid c \<noteq> i) \<Longrightarrow>
   on_state_change_introduction src i pcs w =
     (if pcs = Disconnected \<and> peerLock w then Blocked w else Normal w)"
  by (auto simp: on_state_change_introduction_def locked_deferred_skip split: option.splits)

lemma stale_offer:
  "(case map_of (peers w) src of None \<Rightarrow> True | Some c \<Rightarrow> iid c \<noteq> i) \<Longrightarrow>
   on_state_change_offer src i pcs w =
     (if pcs = Disconnected \<and> peerLock w then Blocked w else Normal w)"
  by (auto simp: on_state_change_offer_def locked_deferred_skip split: option.splits)

text \<open>
  C2. A connection-state event whose \<open>iid\<close> is not that of the stored entry, or that
  finds no entry, changes nothing at all, for both closures; so an event that changes
  what the registry holds for the peer carries the \<open>iid\<close> of the stored entry.
\<close>

theorem disconnect_removes_only_its_own_entry:
  "((case map_of (peers w) src of None \<Rightarrow> True | Some c \<Rightarrow> iid c \<noteq> i) \<longrightarrow>
      step w (StateChangeIntroduction src i pcs) = w \<and>
      step w (StateChangeOffer src i pcs) = w) \<and>
   (map_of (peers (step w (StateChangeIntroduction src i pcs))) src \<noteq> map_of (peers w) src \<longrightarrow>
      (\<exists>c. map_of (peers w) src = Some c \<and> iid c = i)) \<and>
   (map_of (peers (step w (StateChangeOffer src i pcs))) src \<noteq> map_of (peers w) src \<longrightarrow>
      (\<exists>c. map_of (peers w) src = Some c \<and> iid c = i))"
proof -
  have unchanged:
    "step w (StateChangeIntroduction src i pcs) = w \<and> step w (StateChangeOffer src i pcs) = w"
    if "case map_of (peers w) src of None \<Rightarrow> True | Some c \<Rightarrow> iid c \<noteq> i"
    using that by (simp add: on_goroutine_def stale_introduction stale_offer)
  have own: "\<exists>c. map_of (peers w) src = Some c \<and> iid c = i"
    if "\<not> (case map_of (peers w) src of None \<Rightarrow> True | Some c \<Rightarrow> iid c \<noteq> i)"
    using that by (auto split: option.splits)
  from unchanged own show ?thesis by metis
qed

theorem disconnect_removes_only_its_own_entry_witness:
  "map_of (peers (connected_to_B no_fault)) ''B'' =
     Some \<lparr>conn = 1, candidates = 3, channels = [(''primary'', 2)], iid = ''i1''\<rparr> \<and>
   step (connected_to_B no_fault) (StateChangeIntroduction ''B'' ''i0'' Disconnected) =
     connected_to_B no_fault \<and>
   step (connected_to_B no_fault) (StateChangeOffer ''B'' ''i0'' Disconnected) =
     connected_to_B no_fault \<and>
   step (connected_to_B no_fault) (StateChangeOffer ''C'' ''i1'' Disconnected) =
     connected_to_B no_fault \<and>
   map_of (peers (step (connected_to_B no_fault)
     (StateChangeIntroduction ''B'' ''i1'' Disconnected))) ''B'' = None"
proof -
  have entry: "map_of (peers (connected_to_B no_fault)) ''B'' =
      Some \<lparr>conn = 1, candidates = 3, channels = [(''primary'', 2)], iid = ''i1''\<rparr>"
    by (simp add: connected_to_B_eq no_fault_def)
  have absent: "map_of (peers (connected_to_B no_fault)) ''C'' = None"
    by (simp add: connected_to_B_eq no_fault_def)
  have removed: "map_of (peers (step (connected_to_B no_fault)
     (StateChangeIntroduction ''B'' ''i1'' Disconnected))) ''B'' = None"
    by (simp add: connected_to_B_eq no_fault_def on_goroutine_def
          on_state_change_introduction_def locked_deferred_def lock_def close_peer_def
          channel_Close_def conn_Close_def close_queue_def attempt_def)
  show ?thesis
    using entry absent removed
      disconnect_removes_only_its_own_entry
        [where w = "connected_to_B no_fault" and src = "''B''" and i = "''i0''" and pcs = Disconnected]
      disconnect_removes_only_its_own_entry
        [where w = "connected_to_B no_fault" and src = "''C''" and i = "''i1''" and pcs = Disconnected]
    by simp
qed

subsection \<open>Teardown\<close>









text \<open>
  The disconnect closure of the offer case closes no channel at all, whatever the
  entry holds: where the introduction case ranges over the channels, it closes the
  connection a second time.
\<close>

lemma disconnect_offer_closes_no_channel:
  "closed_channels (world_of (on_state_change_offer src i pcs w)) = closed_channels w"
proof -
  let ?same = "\<lambda>w'. closed_channels w' = closed_channels w"
  have conn: "?same (world_of (conn_Close h w'))" if "?same w'" for h w'
    using that by (simp add: conn_Close_def attempt_def split: option.splits)
  have queue: "?same (world_of (close_queue q w'))" if "?same w'" for q w'
    using that by (simp add: close_queue_def)
  have closing: "?same (world_of
      (and_then (conn_Close (conn c) w') (\<lambda>w.
       and_then (conn_Close (conn c) w) (\<lambda>w.
       and_then (close_queue (candidates c) w) (\<lambda>w.
       Normal (w\<lparr>peers := AList.delete src (peers w)\<rparr>))))))" if "?same w'" for c w'
    using that by (intro and_then_stable [where P = ?same] conn queue) simp_all
  have body: "?same (world_of
      (case map_of (peers w') src of
         None \<Rightarrow> Normal w'
       | Some c \<Rightarrow>
           if iid c \<noteq> i then Normal w'
           else
             and_then (conn_Close (conn c) w') (\<lambda>w.
             and_then (conn_Close (conn c) w) (\<lambda>w.
             and_then (close_queue (candidates c) w) (\<lambda>w.
             Normal (w\<lparr>peers := AList.delete src (peers w)\<rparr>))))))" if "?same w'" for w'
    using that closing [OF that] by (auto split: option.splits)
  have "?same (world_of (locked_deferred
      (\<lambda>w'. case map_of (peers w') src of
         None \<Rightarrow> Normal w'
       | Some c \<Rightarrow>
           if iid c \<noteq> i then Normal w'
           else
             and_then (conn_Close (conn c) w') (\<lambda>w.
             and_then (conn_Close (conn c) w) (\<lambda>w.
             and_then (close_queue (candidates c) w) (\<lambda>w.
             Normal (w\<lparr>peers := AList.delete src (peers w)\<rparr>))))) w))"
    by (rule locked_deferred_stable [where P = ?same]) (simp_all add: body)
  then show ?thesis
    by (simp add: on_state_change_offer_def)
qed




subsection \<open>After Close\<close>

text \<open>
  C5. The adapter of identity A is connected to the signaler and holds an entry for B;
  nothing is waiting on \<open>lines\<close>. The host calls \<open>Close\<close>. Then the select takes the
  \<open>lines\<close> case, which is ready because the channel is closed, and a frame (the
  encryption of the nil line) is written to the socket; then B's primary channel opens
  and its \<open>Peer\<close> is sent on \<open>peerChan\<close>. No goroutine has panicked.
\<close>

theorem frames_and_peers_after_Close:
  "adapter_done (step (connected_to_B no_fault) CloseCalled) \<and>
   sent (run (connected_to_B no_fault) [CloseCalled, Line, ChannelOpen ''B'' ''primary'' 2]) =
     None # sent (step (connected_to_B no_fault) CloseCalled) \<and>
   accepted (step (connected_to_B no_fault) CloseCalled) = [] \<and>
   accepted (run (connected_to_B no_fault) [CloseCalled, Line, ChannelOpen ''B'' ''primary'' 2]) =
     [\<lparr>PeerID = ''B'', ChannelID = ''primary'', Conn = newDataChannelReadWriteCloser 2\<rparr>] \<and>
   \<not> crashed (run (connected_to_B no_fault) [CloseCalled, Line, ChannelOpen ''B'' ''primary'' 2])"
  by (simp add: connected_to_B_eq no_fault_def run_def in_session_def on_goroutine_def Close_def
        on_line_def write_line_def on_open_def attempt_def lock_def unlock_def Let_def)


subsection \<open>Candidates and the remote description\<close>




subsection \<open>The configuration\<close>

lemma on_introduction_label:
  "on_introduction lid src i w = Normal w' \<Longrightarrow>
   \<exists>p. map_of (peers w') src = Some p \<and> map fst (channels p) = [PrimaryChannelID (config w)]"
  by (auto simp: on_introduction_def and_then_Normal attempt_Normal lock_Normal unlock_def
        post_def update_conv' Let_def)

text \<open>
  C9, as the claim states it, fails: a configuration is supplied whose timeout was
  not set (Go's zero value), and the adapter keeps the timeout 0, not 10 seconds.
\<close>

theorem unset_timeout_stays_zero:
  "Timeout (config (NewAdapter []
      (Some \<lparr>Timeout = 0, Verbose = False, ID = [], PrimaryChannelID = []\<rparr>) no_fault)) \<noteq>
   Second * 10"
  by (simp add: NewAdapter_def NewAdapter_config_def Second_def TrimSpace_def)

text \<open>
  C9, amended. Without a configuration (nil) the adapter takes a timeout of 10 seconds
  and the primary channel id \<open>primary\<close>. A configuration that is supplied is kept as it
  is, its timeout included, but for a primary channel id that is empty or white space
  only, which becomes \<open>primary\<close>. No event changes the configuration after \<open>NewAdapter\<close>,
  and the data channel created for an introduction is labelled with its primary
  channel id.
\<close>

theorem defaults_fixed_by_NewAdapter:
  "config (run (NewAdapter ices cfg flt) evs) = NewAdapter_config cfg \<and>
   NewAdapter_config None =
     \<lparr>Timeout = Second * 10, Verbose = False, ID = [], PrimaryChannelID = ''primary''\<rparr> \<and>
   NewAdapter_config (Some c) =
     c\<lparr>PrimaryChannelID :=
         (if TrimSpace (PrimaryChannelID c) = [] then ''primary'' else PrimaryChannelID c)\<rparr> \<and>
   (on_introduction lid src i w = Normal w' \<longrightarrow>
      (\<exists>p. map_of (peers w') src = Some p \<and>
           map fst (channels p) = [PrimaryChannelID (config w)]))"
proof -
  have "kept (NewAdapter_config cfg) (run (NewAdapter ices cfg flt) evs)"
    by (rule kept_run) (rule kept_NewAdapter)
  then have "config (run (NewAdapter ices cfg flt) evs) = NewAdapter_config cfg"
    by (simp add: kept_def)
  then show ?thesis
    using on_introduction_label [of lid src i w w']
    by (simp add: NewAdapter_config_def TrimSpace_def)
qed

theorem defaults_fixed_by_NewAdapter_witness:
  "config (connected_to_B no_fault) =
     \<lparr>Timeout = Second * 10, Verbose = False, ID = ''A'', PrimaryChannelID = ''primary''\<rparr> \<and>
   NewAdapter_config (Some \<lparr>Timeout = 0, Verbose = True, ID = [], PrimaryChannelID = ''  ''\<rparr>) =
     \<lparr>Timeout = 0, Verbose = True, ID = [], PrimaryChannelID = ''primary''\<rparr> \<and>
   NewAdapter_config (Some \<lparr>Timeout = 5, Verbose = True, ID = [], PrimaryChannelID = ''data''\<rparr>) =
     \<lparr>Timeout = 5, Verbose = True, ID = [], PrimaryChannelID = ''data''\<rparr> \<and>
   (\<exists>w' p. on_introduction ''A'' ''C'' ''i2'' (connected_to_B no_fault) = Normal w' \<and>
      map_of (peers w') ''C'' = Some p \<and> map fst (channels p) = [''primary''])"
proof -
  let ?cfg = "Some \<lparr>Timeout = Second * 10, Verbose = False, ID = ''A'', PrimaryChannelID = []\<rparr>"
  let ?evs = "[OpenCalled None, Connect ''u0'', Line,
        Input (Envelope (Introduction ''B'')) ''i1'', Line]"
  have blank: "TrimSpace [] = []" "TrimSpace ''  '' = []" "TrimSpace ''data'' = ''data''"
    by (simp_all add: TrimSpace_def space_runes_def strip_rune_def)
  have "config (connected_to_B no_fault) = NewAdapter_config ?cfg"
    using defaults_fixed_by_NewAdapter [where ices = "[]" and cfg = ?cfg and flt = no_fault
        and evs = ?evs]
    by (simp add: connected_to_B_def)
  then have kept_config: "config (connected_to_B no_fault) =
      \<lparr>Timeout = Second * 10, Verbose = False, ID = ''A'', PrimaryChannelID = ''primary''\<rparr>"
    using defaults_fixed_by_NewAdapter
        [where c = "\<lparr>Timeout = Second * 10, Verbose = False, ID = ''A'', PrimaryChannelID = []\<rparr>"]
    by (simp add: blank)
  have blank_id:
    "NewAdapter_config (Some \<lparr>Timeout = 0, Verbose = True, ID = [], PrimaryChannelID = ''  ''\<rparr>) =
      \<lparr>Timeout = 0, Verbose = True, ID = [], PrimaryChannelID = ''primary''\<rparr>"
    using defaults_fixed_by_NewAdapter
        [where c = "\<lparr>Timeout = 0, Verbose = True, ID = [], PrimaryChannelID = ''  ''\<rparr>"]
    by (simp add: blank)
  have own_id:
    "NewAdapter_config (Some \<lparr>Timeout = 5, Verbose = True, ID = [], PrimaryChannelID = ''data''\<rparr>) =
      \<lparr>Timeout = 5, Verbose = True, ID = [], PrimaryChannelID = ''data''\<rparr>"
    using defaults_fixed_by_NewAdapter
        [where c = "\<lparr>Timeout = 5, Verbose = True, ID = [], PrimaryChannelID = ''data''\<rparr>"]
    by (simp add: blank)
  obtain w' where made: "on_introduction ''A'' ''C'' ''i2'' (connected_to_B no_fault) = Normal w'"
    by (simp add: connected_to_B_eq no_fault_def on_introduction_def attempt_def lock_def
          unlock_def post_def Let_def)
  then have "\<exists>p. map_of (peers w') ''C'' = Some p \<and> map fst (channels p) = [''primary'']"
    using defaults_fixed_by_NewAdapter
        [where lid = "''A''" and src = "''C''" and i = "''i2''"
           and w = "connected_to_B no_fault" and w' = w']
      kept_config
    by simp
  with made have labelled: "\<exists>w' p.
      on_introduction ''A'' ''C'' ''i2'' (connected_to_B no_fault) = Normal w' \<and>
      map_of (peers w') ''C'' = Some p \<and> map fst (channels p) = [''primary'']"
    by auto
  show ?thesis
    by (intro conjI kept_config blank_id own_id labelled)
qed


end
